theory Spec2Isabelle
  imports Complex_Main "HOL-Library.List_Lexorder" "HOL-Library.Char_ord" "HOL-Library.Multiset"
begin

section \<open>The map script: categories, colours and the state marker\<close>

text \<open>
  JavaScript numbers are modelled as follows. A severity is a \<^typ>\<open>real\<close>: the
  comparisons and the one average of the script are read as exact arithmetic, so the
  rounding of IEEE doubles is outside the model. Years and months are integers
  (\<^typ>\<open>int\<close>), as the data model has them; they are far below \<open>10^21\<close>, where
  JavaScript prints a number in plain decimal digits. A string is a list of
  characters, each standing for one code unit, and strings are ordered code unit by
  code unit, as the default \<open>sort()\<close> of an array of strings orders them.
\<close>

subsection \<open>Static tables\<close>

text \<open>
  \<open>STATE_COORDINATES\<close>: the centre of each state and union territory. The tables of
  the scripts are plain objects used as dictionaries; they are modelled as finite maps,
  so a key is a name of a state or of a category, never the name of a property that
  every object inherits (such as \<open>constructor\<close> or \<open>toString\<close>).
\<close>

definition STATE_COORDINATES :: "string \<rightharpoonup> real \<times> real" where
  "STATE_COORDINATES = map_of
    [(''Andhra Pradesh'', (15.9129, 79.7400)),
     (''Arunachal Pradesh'', (28.2180, 94.7278)),
     (''Assam'', (26.2006, 92.9376)),
     (''Bihar'', (25.0961, 85.3131)),
     (''Chhattisgarh'', (21.2787, 81.8661)),
     (''Goa'', (15.2993, 74.1240)),
     (''Gujarat'', (22.2587, 71.1924)),
     (''Haryana'', (29.0588, 76.0856)),
     (''Himachal Pradesh'', (31.1048, 77.1734)),
     (''Jharkhand'', (23.6102, 85.2799)),
     (''Karnataka'', (15.3173, 75.7139)),
     (''Kerala'', (10.8505, 76.2711)),
     (''Madhya Pradesh'', (22.9734, 78.6569)),
     (''Maharashtra'', (19.7515, 75.7139)),
     (''Manipur'', (24.6637, 93.9063)),
     (''Meghalaya'', (25.4670, 91.3662)),
     (''Mizoram'', (23.1645, 92.9376)),
     (''Nagaland'', (26.1584, 94.5624)),
     (''Odisha'', (20.9517, 85.0985)),
     (''Punjab'', (31.1471, 75.3412)),
     (''Rajasthan'', (27.0238, 74.2179)),
     (''Sikkim'', (27.5330, 88.5122)),
     (''Tamil Nadu'', (11.1271, 78.6569)),
     (''Telangana'', (18.1124, 79.0193)),
     (''Tripura'', (23.9408, 91.9882)),
     (''Uttar Pradesh'', (26.8467, 80.9462)),
     (''Uttarakhand'', (30.0668, 79.0193)),
     (''West Bengal'', (22.9868, 87.8550)),
     (''Andaman and Nicobar Islands'', (11.7401, 92.6586)),
     (''Chandigarh'', (30.7333, 76.7794)),
     (''Dadra and Nagar Haveli and Daman and Diu'', (20.4283, 72.8397)),
     (''Delhi'', (28.7041, 77.1025)),
     (''Jammu and Kashmir'', (33.7782, 76.5762)),
     (''Ladakh'', (34.1526, 77.5771)),
     (''Lakshadweep'', (10.5667, 72.6417)),
     (''Puducherry'', (11.9416, 79.8083))]"

text \<open>\<open>DROUGHT_COLORS\<close>: category to colour, ten entries.\<close>

definition DROUGHT_COLORS :: "string \<rightharpoonup> string" where
  "DROUGHT_COLORS = map_of
    [(''Exceptional Drought'', ''#730000''),
     (''Extreme Drought'', ''#E60000''),
     (''Severe Drought'', ''#FFAA00''),
     (''Moderate Drought'', ''#FCD37F''),
     (''Slightly Dry'', ''#FFFF00''),
     (''Near Normal'', ''#FFFFFF''),
     (''Slightly Wet'', ''#A6F28F''),
     (''Moderate Wet'', ''#00AAFF''),
     (''No Drought'', ''#4CAF50''),
     (''Mild Drought'', ''#FFEB3B'')]"

text \<open>
  \<open>DROUGHT_COLORS[category] || "#808080"\<close> of \<open>showStateMarker\<close>: the grey default is
  taken when the table has no entry for the category, or an empty one.
\<close>

definition categoryColor :: "string \<Rightarrow> string" where
  "categoryColor category =
     (case DROUGHT_COLORS category of
        None \<Rightarrow> ''#808080''
      | Some c \<Rightarrow> if c = [] then ''#808080'' else c)"

subsection \<open>Classification\<close>

definition severityToCategory :: "real \<Rightarrow> string" where
  "severityToCategory severity =
     (if severity \<le> 0.8 then ''No Drought''
      else if severity \<le> 1.8 then ''Slightly Dry''
      else if severity \<le> 2.8 then ''Moderate Drought''
      else if severity \<le> 3.8 then ''Severe Drought''
      else ''Extreme Drought'')"

subsection \<open>Reading a date string\<close>

text \<open>
  \<open>s.split("-")\<close>: the pieces of \<open>s\<close> between dashes; the empty string gives one empty
  piece.
\<close>

fun split_dash :: "string \<Rightarrow> string list" where
  "split_dash [] = [[]]"
| "split_dash (c # cs) =
     (if c = CHR ''-'' then [] # split_dash cs
      else (case split_dash cs of
              [] \<Rightarrow> [[c]]
            | w # ws \<Rightarrow> (c # w) # ws))"

text \<open>The value of a decimal digit: the code units 48 to 57.\<close>

definition digit_val :: "char \<Rightarrow> nat option" where
  "digit_val c =
     (let k = (of_char c :: nat)
      in if 48 \<le> k \<and> k \<le> 57 then Some (k - 48) else None)"

fun digits_val :: "string \<Rightarrow> nat \<Rightarrow> nat option" where
  "digits_val [] acc = Some acc"
| "digits_val (c # cs) acc =
     (case digit_val c of
        None \<Rightarrow> None
      | Some d \<Rightarrow> digits_val cs (10 * acc + d))"

text \<open>
  \<open>Number(piece)\<close> for a piece of a date string, and for the value of a dropdown. The
  strings converted here are built from integers by the templates of the script (and
  the default \<open>"2024-01"\<close>), so a piece is a run of decimal digits or empty: \<open>Number\<close>
  reads a run of digits as its decimal value (leading zeros allowed) and the empty
  string as 0. On a piece with any other character the model answers \<open>None\<close>, which
  stands for \<open>NaN\<close>: equal to no number, and absorbing in arithmetic. (Signs,
  fractions, exponents, blanks and prefixes such as \<open>0x\<close>, which \<open>Number\<close> also reads,
  are outside the model.)
\<close>

definition js_Number :: "string \<Rightarrow> int option" where
  "js_Number s = map_option int (digits_val s 0)"

text \<open>
  \<open>const [a, b] = s.split("-").map(Number)\<close>: the first two pieces as numbers; a piece
  that is missing is \<open>undefined\<close>, which like \<open>NaN\<close> equals no number and is \<open>None\<close>
  here.
\<close>

definition parseDate :: "string \<Rightarrow> int option \<times> int option" where
  "parseDate dateStr =
     (case map js_Number (split_dash dateStr) of
        [] \<Rightarrow> (None, None)
      | [a] \<Rightarrow> (a, None)
      | a # b # _ \<Rightarrow> (a, b))"

subsection \<open>The state marker\<close>

text \<open>
  A record as the map script reads it: \<open>p.state\<close>, \<open>p.year\<close>, \<open>p.month\<close> and
  \<open>p.drought_severity\<close>. The other fields of the file (district, drought_category,
  confidence) are never read by this script.
\<close>

record prediction =
  p_state :: string
  p_year :: int
  p_month :: int
  p_drought_severity :: real

text \<open>
  The circle \<open>showStateMarker\<close> draws and the popup bound to it. \<open>popup_severity\<close> is
  \<open>avgSeverity\<close> before \<open>toFixed(2)\<close> prints it; the radius 40, weight 2, opacity 0.4
  and fill opacity 0.6 are constants of the script.
\<close>

record marker =
  center :: "real \<times> real"
  fillColor :: string
  color :: string
  popup_state :: string
  popup_severity :: real
  popup_category :: string
  popup_samples :: nat

text \<open>
  What a call of \<open>showStateMarker\<close> leaves on the map:
  \<^item> \<open>NoRecords c\<close>: no record matched; an empty layer is added and, when the state has
    a coordinate \<open>c\<close>, the view is set to it at zoom 6;
  \<^item> \<open>NoCenter\<close>: records matched and a category was computed, but the state has no
    coordinate: a message is logged and nothing is drawn;
  \<^item> \<open>Drawn m\<close>: the circle \<open>m\<close> is drawn and the view is set to its centre at zoom 6.
\<close>

datatype outcome = NoRecords "(real \<times> real) option" | NoCenter | Drawn marker

text \<open>The records \<open>showStateMarker\<close> keeps: strict equality on state, year and month.\<close>

definition statePredictions :: "prediction list \<Rightarrow> string \<Rightarrow> string \<Rightarrow> prediction list" where
  "statePredictions predictionData state dateStr =
     (let (year, month) = parseDate dateStr
      in filter (\<lambda>p. p_state p = state \<and> Some (p_year p) = year \<and> Some (p_month p) = month)
           predictionData)"

text \<open>
  \<open>showStateMarker(state, dateStr)\<close>. The first component is the count the function
  logs (\<open>Found n records\<close>); the second is what it leaves on the map. The median is
  computed only after the early return for an empty selection, so both indices read
  below are inside the sorted array.
\<close>

definition showStateMarker :: "prediction list \<Rightarrow> string \<Rightarrow> string \<Rightarrow> nat \<times> outcome" where
  "showStateMarker predictionData state dateStr =
     (let found = statePredictions predictionData state dateStr
      in if length found = 0 then (length found, NoRecords (STATE_COORDINATES state))
         else
           let severities = sort (map p_drought_severity found);
               mid = length severities div 2;
               avgSeverity =
                 (if length severities mod 2 = 0
                  then (severities ! (mid - 1) + severities ! mid) / 2
                  else severities ! mid);
               category = severityToCategory avgSeverity;
               col = categoryColor category
           in (case STATE_COORDINATES state of
                 None \<Rightarrow> (length found, NoCenter)
               | Some c \<Rightarrow>
                   (length found,
                    Drawn \<lparr>center = c, fillColor = col, color = col, popup_state = state,
                           popup_severity = avgSeverity, popup_category = category,
                           popup_samples = length found\<rparr>)))"

text \<open>
  The median as the specification words it: sort ascending; the middle element of an
  odd number of values, the average of the two middle elements of an even number.
\<close>

definition spec_median :: "real list \<Rightarrow> real" where
  "spec_median xs =
     (let ys = sort xs; n = length ys
      in if odd n then ys ! ((n - 1) div 2)
         else (ys ! (n div 2 - 1) + ys ! (n div 2)) / 2)"

section \<open>The map script: the state list and the period list\<close>

text \<open>
  A JavaScript \<open>Set\<close> keeps its members in the order of their first insertion; it is
  modelled as a list without repetition, and \<open>set_add\<close> is its \<open>add\<close>.
\<close>

definition set_add :: "'a list \<Rightarrow> 'a \<Rightarrow> 'a list" where
  "set_add members x = (if x \<in> set members then members else members @ [x])"

text \<open>\<open>[...new Set(predictionData.map(p => p.state))]\<close>.\<close>

definition statesWithData :: "prediction list \<Rightarrow> string list" where
  "statesWithData predictionData = fold (\<lambda>x members. set_add members x) (map p_state predictionData) []"

text \<open>\<open>statesWithData.sort()\<close>: the options of the state dropdown, in this order.\<close>

definition stateOptions :: "prediction list \<Rightarrow> string list" where
  "stateOptions predictionData = sort (statesWithData predictionData)"

text \<open>An integer printed inside a template string: decimal digits, a minus sign first
  when negative.\<close>

definition digit_char :: "nat \<Rightarrow> char" where
  "digit_char d = ''0123456789'' ! d"

fun dec_nat :: "nat \<Rightarrow> string" where
  "dec_nat n = (if n < 10 then [digit_char n] else dec_nat (n div 10) @ [digit_char (n mod 10)])"

declare dec_nat.simps [simp del]

definition js_String :: "int \<Rightarrow> string" where
  "js_String i = (if i < 0 then CHR ''-'' # dec_nat (nat (- i)) else dec_nat (nat i))"

text \<open>The template \<open>`${p.year}-${p.month}`\<close>.\<close>

definition ymTemplate :: "int \<Rightarrow> int \<Rightarrow> string" where
  "ymTemplate y m = js_String y @ ''-'' @ js_String m"

text \<open>\<open>ymSet\<close>: the period strings of the records of 2024 to 2026.\<close>

definition ymSet :: "prediction list \<Rightarrow> string list" where
  "ymSet predictionData =
     fold (\<lambda>p members.
             if p_year p \<ge> 2024 \<and> p_year p \<le> 2026
             then set_add members (ymTemplate (p_year p) (p_month p))
             else members)
       predictionData []"

text \<open>
  The comparator of the period sort is \<open>ya*12+ma - (yb*12+mb)\<close>, the difference of
  the keys of its two arguments. \<open>ym_key\<close> is that key; it is \<open>None\<close> (\<open>NaN\<close>) when the
  year or the month of the string is.
\<close>

definition ym_key :: "string \<Rightarrow> int option" where
  "ym_key s =
     (case parseDate s of
        (Some y, Some m) \<Rightarrow> Some (y * 12 + m)
      | _ \<Rightarrow> None)"

text \<open>
  \<open>Array.from(ymSet).sort(comparator)\<close>. \<open>Array.prototype.sort\<close> is stable, and with a
  comparator that is the difference of two keys it sorts by the key, ascending.
  When a key is \<open>NaN\<close> the comparator is inconsistent and the language leaves the
  order to the implementation: the model answers \<open>None\<close> there.
\<close>

definition sortPeriods :: "string list \<Rightarrow> string list option" where
  "sortPeriods periods =
     (if list_all (\<lambda>s. ym_key s \<noteq> None) periods
      then Some (sort_key (\<lambda>s. the (ym_key s)) periods)
      else None)"

text \<open>The array \<open>sorted\<close> of \<open>loadMapPredictions\<close>: the options of the date dropdown
  are made from it, in this order.\<close>

definition sortedPeriods :: "prediction list \<Rightarrow> string list option" where
  "sortedPeriods predictionData = sortPeriods (ymSet predictionData)"

section \<open>The prediction script: index, lookup and placeholder\<close>

text \<open>
  A record of the data file as \<open>prediction.js\<close> reads it. Each field may be written
  in lowercase or capitalised, and each may be missing: \<open>None\<close> is a missing field
  (or one that is \<open>null\<close>; the script never tells the two apart). States, districts
  and categories are strings, months and years integers, the other values numbers.
\<close>

record record_obj =
  record_state :: "string option"
  record_State :: "string option"
  record_district :: "string option"
  record_District :: "string option"
  record_month :: "int option"
  record_Month :: "int option"
  record_year :: "int option"
  record_Year :: "int option"
  drought_category :: "string option"
  DroughtCategory :: "string option"
  drought_severity :: "real option"
  Severity :: "real option"
  rainfall_prediction :: "real option"
  Rainfall :: "real option"
  temperature_avg :: "real option"
  Temperature :: "real option"
  confidence :: "real option"
  Confidence :: "real option"

text \<open>Truthiness of a string field: missing and the empty string are falsy.\<close>

definition truthy :: "string option \<Rightarrow> bool" where
  "truthy v = (case v of None \<Rightarrow> False | Some s \<Rightarrow> s \<noteq> [])"

text \<open>\<open>a || b\<close> on string fields: \<open>a\<close> when it is truthy, else \<open>b\<close>.\<close>

definition js_or :: "string option \<Rightarrow> string option \<Rightarrow> string option" where
  "js_or a b = (if truthy a then a else b)"

text \<open>
  The body of the loop of \<open>populateStateDistrictMap\<close>, for one record. The index
  \<open>stateDistrictMap\<close> is a finite map from a state to the array of its districts.
\<close>

definition addRecord :: "(string \<rightharpoonup> string list) \<Rightarrow> record_obj \<Rightarrow> (string \<rightharpoonup> string list)" where
  "addRecord stateDistrictMap r =
     (let state = js_or (record_state r) (record_State r);
          district = js_or (record_district r) (record_District r)
      in if truthy state \<and> truthy district
         then
           (case (state, district) of
              (Some s, Some d) \<Rightarrow>
                (let m1 = (if stateDistrictMap s = None then stateDistrictMap(s \<mapsto> [])
                           else stateDistrictMap)
                 in (case m1 s of
                       None \<Rightarrow> m1
                     | Some ds \<Rightarrow> if d \<in> set ds then m1 else m1(s \<mapsto> ds @ [d])))
            | _ \<Rightarrow> stateDistrictMap)
         else stateDistrictMap)"

text \<open>
  \<open>populateStateDistrictMap\<close>, given the loaded data (\<open>None\<close> when \<open>predictionData\<close> is
  \<open>null\<close> or not an array) and the index so far: every record is added, then the
  districts of every state are sorted.
\<close>

definition populateStateDistrictMap ::
    "record_obj list option \<Rightarrow> (string \<rightharpoonup> string list) \<Rightarrow> (string \<rightharpoonup> string list)" where
  "populateStateDistrictMap predictionData stateDistrictMap =
     (case predictionData of
        None \<Rightarrow> stateDistrictMap
      | Some records \<Rightarrow>
          (let m = fold (\<lambda>r m. addRecord m r) records stateDistrictMap
           in (\<lambda>state. map_option sort (m state))))"

text \<open>
  \<open>field == selected\<close> for a numeric field and a selected value, which is a string:
  the string is converted with \<open>Number\<close>. The values of the month and year
  dropdowns are decimal numerals, which \<open>js_Number\<close> reads exactly. A missing field
  equals no string.
\<close>

definition loose_eq :: "int option \<Rightarrow> string \<Rightarrow> bool" where
  "loose_eq field selected =
     (case field of None \<Rightarrow> False | Some n \<Rightarrow> js_Number selected = Some n)"

text \<open>The predicate of the \<open>find\<close> of \<open>getPrediction\<close>.\<close>

definition matches :: "string \<Rightarrow> string \<Rightarrow> string \<Rightarrow> string \<Rightarrow> record_obj \<Rightarrow> bool" where
  "matches state district month year r =
     ((record_state r = Some state \<or> record_State r = Some state) \<and>
      (record_district r = Some district \<or> record_District r = Some district) \<and>
      (loose_eq (record_month r) month \<or> loose_eq (record_Month r) month) \<and>
      (loose_eq (record_year r) year \<or> loose_eq (record_Year r) year))"

text \<open>
  \<open>generateSamplePrediction\<close>. \<open>random i\<close> is the value of the \<open>i\<close>-th call of
  \<open>Math.random()\<close>, in the order the function makes them; the four parameters of the
  function are not used by it. An index outside the array reads \<open>undefined\<close>. The
  products and sums are exact here, where the script rounds them to doubles: nothing
  below depends on the values of the generated numbers.
\<close>

definition droughtCategories :: "string list" where
  "droughtCategories =
     [''No Drought'', ''Mild Drought'', ''Moderate Drought'', ''Severe Drought'', ''Extreme Drought'']"

definition generateSamplePrediction :: "(nat \<Rightarrow> real) \<Rightarrow> record_obj" where
  "generateSamplePrediction random =
     (let i = \<lfloor>random 0 * real (length droughtCategories)\<rfloor>;
          randomCategory =
            (if 0 \<le> i \<and> i < int (length droughtCategories)
             then Some (droughtCategories ! nat i) else None)
      in \<lparr>record_state = None, record_State = None, record_district = None,
          record_District = None, record_month = None, record_Month = None,
          record_year = None, record_Year = None,
          drought_category = randomCategory, DroughtCategory = None,
          drought_severity = Some (random 1 * 5), Severity = None,
          rainfall_prediction = Some (random 2 * 200), Rainfall = None,
          temperature_avg = Some (20 + random 3 * 15), Temperature = None,
          confidence = Some (0.7 + random 4 * 0.25), Confidence = None\<rparr>)"

text \<open>\<open>haystack.includes(needle)\<close> on strings.\<close>

fun js_includes :: "string \<Rightarrow> string \<Rightarrow> bool" where
  "js_includes [] needle = (needle = [])"
| "js_includes (c # cs) needle = (take (length needle) (c # cs) = needle \<or> js_includes cs needle)"

text \<open>\<open>a || b || 0\<close> on numeric fields: zero and a missing field are falsy.\<close>

definition num_or :: "real option \<Rightarrow> real option \<Rightarrow> real" where
  "num_or a b =
     (case a of
        Some x \<Rightarrow> if x \<noteq> 0 then x else (case b of Some y \<Rightarrow> y | None \<Rightarrow> 0)
      | None \<Rightarrow> (case b of Some y \<Rightarrow> y | None \<Rightarrow> 0))"

text \<open>
  What \<open>displayPrediction\<close> writes into the results panel. The markup is a fixed
  template around these values; the numbers are the ones \<open>toFixed\<close> then prints, and
  the month is the selected value, which the template turns into a month name.
\<close>

record panel =
  location_district :: string
  location_state :: string
  period_month :: string
  period_year :: string
  shown_category :: string
  severityClass :: string
  shown_severity :: real
  shown_rainfall :: real
  shown_temperature :: real
  shown_confidence :: real

definition displayPrediction ::
    "record_obj \<Rightarrow> string \<Rightarrow> string \<Rightarrow> string \<Rightarrow> string \<Rightarrow> panel" where
  "displayPrediction prediction state district month year =
     (let category =
            (case js_or (js_or (drought_category prediction) (DroughtCategory prediction))
                    (Some ''Unknown'') of
               Some c \<Rightarrow> c
             | None \<Rightarrow> ''Unknown'');
          severity = num_or (drought_severity prediction) (Severity prediction);
          rainfall = num_or (rainfall_prediction prediction) (Rainfall prediction);
          temperature = num_or (temperature_avg prediction) (Temperature prediction);
          conf = num_or (confidence prediction) (Confidence prediction);
          cls = (if js_includes category ''Severe'' \<or> js_includes category ''Extreme''
                 then ''severity-severe''
                 else if js_includes category ''Moderate'' \<or> js_includes category ''Mild''
                 then ''severity-moderate''
                 else ''severity-normal'')
      in \<lparr>location_district = district, location_state = state, period_month = month,
          period_year = year, shown_category = category, severityClass = cls,
          shown_severity = severity, shown_rainfall = rainfall,
          shown_temperature = temperature, shown_confidence = conf\<rparr>)"

text \<open>
  \<open>getPrediction\<close>, given the loaded data, the four selected values and the random
  numbers: an alert when a value is not selected, else the panel of the record found,
  or of a generated one when none is found.
\<close>

datatype shown = Alert | Panel panel

definition getPrediction ::
    "record_obj list option \<Rightarrow> string \<Rightarrow> string \<Rightarrow> string \<Rightarrow> string \<Rightarrow> (nat \<Rightarrow> real) \<Rightarrow> shown" where
  "getPrediction predictionData state district month year random =
     (if state = [] \<or> district = [] \<or> month = [] \<or> year = [] then Alert
      else
        let found = (case predictionData of
                       None \<Rightarrow> None
                     | Some records \<Rightarrow> find (matches state district month year) records);
            prediction = (case found of
                            None \<Rightarrow> generateSamplePrediction random
                          | Some r \<Rightarrow> r)
        in Panel (displayPrediction prediction state district month year))"

text \<open>The object \<open>{}\<close>: a record with no field.\<close>

definition empty_record :: record_obj where
  "empty_record =
     \<lparr>record_state = None, record_State = None, record_district = None,
      record_District = None, record_month = None, record_Month = None,
      record_year = None, record_Year = None,
      drought_category = None, DroughtCategory = None,
      drought_severity = None, Severity = None,
      rainfall_prediction = None, Rainfall = None,
      temperature_avg = None, Temperature = None,
      confidence = None, Confidence = None\<rparr>"

text \<open>
  For the spelling property only, not part of the script: a record that uses the
  lowercase names \<open>state\<close>, \<open>district\<close>, \<open>month\<close>, \<open>year\<close>, written with the
  capitalised names instead.
\<close>

definition capitalised :: "record_obj \<Rightarrow> record_obj" where
  "capitalised r =
     r\<lparr>record_state := None, record_State := record_state r,
       record_district := None, record_District := record_district r,
       record_month := None, record_Month := record_month r,
       record_year := None, record_Year := record_year r\<rparr>"

section \<open>Properties of the classification\<close>

lemma severityToCategory_five:
  "severityToCategory s \<in>
     {''No Drought'', ''Slightly Dry'', ''Moderate Drought'', ''Severe Drought'', ''Extreme Drought''}"
  by (simp add: severityToCategory_def)

text \<open>
  C2. The classification is a function of the one number, with thresholds inclusive
  above, read in ascending order: up to 0.8 is No Drought, above 0.8 and up to 1.8 is
  Slightly Dry, above 1.8 and up to 2.8 is Moderate Drought, above 2.8 and up to 3.8 is
  Severe Drought, above 3.8 is Extreme Drought. At the boundaries: 0.8 is No Drought,
  0.80001 Slightly Dry, 3.8 Severe Drought, 3.80001 Extreme Drought.
\<close>

theorem severityToCategory_thresholds:
  "(s \<le> 0.8 \<longrightarrow> severityToCategory s = ''No Drought'') \<and>
   (0.8 < s \<and> s \<le> 1.8 \<longrightarrow> severityToCategory s = ''Slightly Dry'') \<and>
   (1.8 < s \<and> s \<le> 2.8 \<longrightarrow> severityToCategory s = ''Moderate Drought'') \<and>
   (2.8 < s \<and> s \<le> 3.8 \<longrightarrow> severityToCategory s = ''Severe Drought'') \<and>
   (3.8 < s \<longrightarrow> severityToCategory s = ''Extreme Drought'') \<and>
   severityToCategory 0.8 = ''No Drought'' \<and>
   severityToCategory 0.80001 = ''Slightly Dry'' \<and>
   severityToCategory 3.8 = ''Severe Drought'' \<and>
   severityToCategory 3.80001 = ''Extreme Drought''"
  by (simp add: severityToCategory_def)

theorem severityToCategory_thresholds_witness:
  "severityToCategory 0.5 = ''No Drought'' \<and>
   severityToCategory 1.2 = ''Slightly Dry'' \<and>
   severityToCategory 2.5 = ''Moderate Drought'' \<and>
   severityToCategory 3 = ''Severe Drought'' \<and>
   severityToCategory 4.6 = ''Extreme Drought''"
  using severityToCategory_thresholds [of "0.5"] severityToCategory_thresholds [of "1.2"]
    severityToCategory_thresholds [of "2.5"] severityToCategory_thresholds [of 3]
    severityToCategory_thresholds [of "4.6"]
  by simp

text \<open>
  C10. Whatever the severity, negative or far above 5, the classifier answers one of
  five labels, each of the five is answered for some severity, and each has an entry
  in the colour table: the grey default of the marker is never taken for a label the
  classifier produced. Every severity up to 0.8 is No Drought.
\<close>

theorem severityToCategory_always_coloured:
  "range severityToCategory =
     {''No Drought'', ''Slightly Dry'', ''Moderate Drought'', ''Severe Drought'', ''Extreme Drought''} \<and>
   (\<exists>c. DROUGHT_COLORS (severityToCategory s) = Some c \<and> c \<noteq> [] \<and>
        categoryColor (severityToCategory s) = c) \<and>
   categoryColor (severityToCategory s) \<noteq> ''#808080'' \<and>
   (s \<le> 0.8 \<longrightarrow> severityToCategory s = ''No Drought'')"
proof -
  have "range severityToCategory \<subseteq>
     {''No Drought'', ''Slightly Dry'', ''Moderate Drought'', ''Severe Drought'', ''Extreme Drought''}"
    using severityToCategory_five by blast
  moreover have "''No Drought'' \<in> range severityToCategory"
    by (rule range_eqI [of _ _ 0]) (simp add: severityToCategory_def)
  moreover have "''Slightly Dry'' \<in> range severityToCategory"
    by (rule range_eqI [of _ _ 1]) (simp add: severityToCategory_def)
  moreover have "''Moderate Drought'' \<in> range severityToCategory"
    by (rule range_eqI [of _ _ 2]) (simp add: severityToCategory_def)
  moreover have "''Severe Drought'' \<in> range severityToCategory"
    by (rule range_eqI [of _ _ 3]) (simp add: severityToCategory_def)
  moreover have "''Extreme Drought'' \<in> range severityToCategory"
    by (rule range_eqI [of _ _ 4]) (simp add: severityToCategory_def)
  ultimately have r: "range severityToCategory =
     {''No Drought'', ''Slightly Dry'', ''Moderate Drought'', ''Severe Drought'', ''Extreme Drought''}"
    by blast
  have c: "(\<exists>c. DROUGHT_COLORS (severityToCategory s) = Some c \<and> c \<noteq> [] \<and>
        categoryColor (severityToCategory s) = c) \<and>
      categoryColor (severityToCategory s) \<noteq> ''#808080''"
    using severityToCategory_five [of s]
    by (auto simp: categoryColor_def DROUGHT_COLORS_def)
  have "s \<le> 0.8 \<longrightarrow> severityToCategory s = ''No Drought''"
    by (simp add: severityToCategory_def)
  with r c show ?thesis by blast
qed

theorem severityToCategory_always_coloured_witness:
  "severityToCategory (- 1000) = ''No Drought'' \<and>
   categoryColor (severityToCategory (- 1000)) \<noteq> ''#808080''"
proof -
  have h: "(- 1000 :: real) \<le> 0.8" by simp
  from severityToCategory_always_coloured [of "- 1000"] h show ?thesis by blast
qed


section \<open>Properties of the state marker\<close>

lemma parseDate_2025_03: "parseDate ''2025-03'' = (Some 2025, Some 3)"
  by (simp add: parseDate_def js_Number_def digit_val_def)

lemma parseDate_2024_06: "parseDate ''2024-06'' = (Some 2024, Some 6)"
  by (simp add: parseDate_def js_Number_def digit_val_def)

lemma coordinates_Bihar: "STATE_COORDINATES ''Bihar'' = Some (25.0961, 85.3131)"
  by (simp add: STATE_COORDINATES_def)

lemma coordinates_Kerala: "STATE_COORDINATES ''Kerala'' = Some (10.8505, 76.2711)"
  by (simp add: STATE_COORDINATES_def)

lemma middle_of_odd: "n mod 2 = Suc 0 \<Longrightarrow> (n - Suc 0) div 2 = n div 2"
  by presburger

text \<open>
  The comparator \<open>(a,b) => a-b\<close> orders numbers ascending, and there is one ascending
  arrangement of given values only: whatever algorithm the engine sorts with, the
  sorted array is \<^term>\<open>sort xs\<close>.
\<close>

lemma sort_is_the_ascending_arrangement:
  fixes xs :: "real list"
  shows "sorted ys \<Longrightarrow> mset ys = mset xs \<Longrightarrow> sort xs = ys"
  by (rule properties_for_sort)

lemma showStateMarker_nonempty:
  assumes "statePredictions predictionData state dateStr \<noteq> []"
  shows "showStateMarker predictionData state dateStr =
     (let found = statePredictions predictionData state dateStr;
          avgSeverity = spec_median (map p_drought_severity found);
          category = severityToCategory avgSeverity
      in (length found,
          case STATE_COORDINATES state of
            None \<Rightarrow> NoCenter
          | Some c \<Rightarrow>
              Drawn \<lparr>center = c, fillColor = categoryColor category, color = categoryColor category,
                     popup_state = state, popup_severity = avgSeverity,
                     popup_category = category, popup_samples = length found\<rparr>))"
  using assms
  by (simp add: showStateMarker_def spec_median_def Let_def odd_iff_mod_2_eq_one middle_of_odd
      split: option.splits)

text \<open>
  C3. Whenever the selection is not empty, the severity the popup shows is the median
  of the selected severities as the specification words it: sorted ascending, the
  middle element of an odd number of values, the average of the two middle elements
  of an even number. (Without a coordinate for the state nothing is shown.) The
  severities 1, 3, 5 give 3 and the severities 1, 2, 3, 4 give 2.5.
\<close>

theorem median_of_selection:
  "(statePredictions predictionData state dateStr \<noteq> [] \<longrightarrow>
     (case snd (showStateMarker predictionData state dateStr) of
        Drawn m \<Rightarrow>
          popup_severity m =
            spec_median (map p_drought_severity (statePredictions predictionData state dateStr))
      | NoCenter \<Rightarrow> STATE_COORDINATES state = None
      | NoRecords c \<Rightarrow> False)) \<and>
   snd (showStateMarker
          (map (\<lambda>v. \<lparr>p_state = ''Kerala'', p_year = 2024, p_month = 6, p_drought_severity = v\<rparr>)
             [1.0, 3.0, 5.0])
          ''Kerala'' ''2024-06'') =
     Drawn \<lparr>center = (10.8505, 76.2711), fillColor = ''#FFAA00'', color = ''#FFAA00'',
            popup_state = ''Kerala'', popup_severity = 3.0, popup_category = ''Severe Drought'',
            popup_samples = 3\<rparr> \<and>
   snd (showStateMarker
          (map (\<lambda>v. \<lparr>p_state = ''Kerala'', p_year = 2024, p_month = 6, p_drought_severity = v\<rparr>)
             [1.0, 2.0, 3.0, 4.0])
          ''Kerala'' ''2024-06'') =
     Drawn \<lparr>center = (10.8505, 76.2711), fillColor = ''#FCD37F'', color = ''#FCD37F'',
            popup_state = ''Kerala'', popup_severity = 2.5, popup_category = ''Moderate Drought'',
            popup_samples = 4\<rparr>"
proof -
  have general: "statePredictions predictionData state dateStr \<noteq> [] \<longrightarrow>
     (case snd (showStateMarker predictionData state dateStr) of
        Drawn m \<Rightarrow>
          popup_severity m =
            spec_median (map p_drought_severity (statePredictions predictionData state dateStr))
      | NoCenter \<Rightarrow> STATE_COORDINATES state = None
      | NoRecords c \<Rightarrow> False)"
    by (simp add: showStateMarker_nonempty Let_def split: option.splits)
  have odd_example: "snd (showStateMarker
          (map (\<lambda>v. \<lparr>p_state = ''Kerala'', p_year = 2024, p_month = 6, p_drought_severity = v\<rparr>)
             [1.0, 3.0, 5.0])
          ''Kerala'' ''2024-06'') =
     Drawn \<lparr>center = (10.8505, 76.2711), fillColor = ''#FFAA00'', color = ''#FFAA00'',
            popup_state = ''Kerala'', popup_severity = 3.0, popup_category = ''Severe Drought'',
            popup_samples = 3\<rparr>"
    by (simp add: showStateMarker_def statePredictions_def parseDate_2024_06 coordinates_Kerala
        Let_def severityToCategory_def categoryColor_def DROUGHT_COLORS_def)
  have even_example: "snd (showStateMarker
          (map (\<lambda>v. \<lparr>p_state = ''Kerala'', p_year = 2024, p_month = 6, p_drought_severity = v\<rparr>)
             [1.0, 2.0, 3.0, 4.0])
          ''Kerala'' ''2024-06'') =
     Drawn \<lparr>center = (10.8505, 76.2711), fillColor = ''#FCD37F'', color = ''#FCD37F'',
            popup_state = ''Kerala'', popup_severity = 2.5, popup_category = ''Moderate Drought'',
            popup_samples = 4\<rparr>"
    by (simp add: showStateMarker_def statePredictions_def parseDate_2024_06 coordinates_Kerala
        Let_def severityToCategory_def categoryColor_def DROUGHT_COLORS_def)
  from general odd_example even_example show ?thesis by blast
qed

lemma spec_median_5_1_3: "spec_median [5, 1, 3] = 3"
  by (simp add: spec_median_def)

theorem median_of_selection_witness:
  "statePredictions
     [\<lparr>p_state = ''Bihar'', p_year = 2025, p_month = 3, p_drought_severity = 5\<rparr>,
      \<lparr>p_state = ''Bihar'', p_year = 2025, p_month = 3, p_drought_severity = 1\<rparr>,
      \<lparr>p_state = ''Bihar'', p_year = 2025, p_month = 3, p_drought_severity = 3\<rparr>]
     ''Bihar'' ''2025-03'' \<noteq> [] \<and>
   (\<exists>m. snd (showStateMarker
       [\<lparr>p_state = ''Bihar'', p_year = 2025, p_month = 3, p_drought_severity = 5\<rparr>,
        \<lparr>p_state = ''Bihar'', p_year = 2025, p_month = 3, p_drought_severity = 1\<rparr>,
        \<lparr>p_state = ''Bihar'', p_year = 2025, p_month = 3, p_drought_severity = 3\<rparr>]
       ''Bihar'' ''2025-03'') = Drawn m \<and> popup_severity m = 3)"
proof -
  let ?data = "[\<lparr>p_state = ''Bihar'', p_year = 2025, p_month = 3, p_drought_severity = 5\<rparr>,
      \<lparr>p_state = ''Bihar'', p_year = 2025, p_month = 3, p_drought_severity = 1\<rparr>,
      \<lparr>p_state = ''Bihar'', p_year = 2025, p_month = 3, p_drought_severity = 3\<rparr>]"
  have sel: "statePredictions ?data ''Bihar'' ''2025-03'' = ?data"
    by (simp add: statePredictions_def parseDate_2025_03)
  have ne: "statePredictions ?data ''Bihar'' ''2025-03'' \<noteq> []"
    by (simp add: sel)
  have c: "STATE_COORDINATES ''Bihar'' \<noteq> None"
    by (simp add: coordinates_Bihar)
  from median_of_selection [of ?data "''Bihar''" "''2025-03''"] ne
  have "case snd (showStateMarker ?data ''Bihar'' ''2025-03'') of
        Drawn m \<Rightarrow> popup_severity m = spec_median (map p_drought_severity (statePredictions ?data ''Bihar'' ''2025-03''))
      | NoCenter \<Rightarrow> STATE_COORDINATES ''Bihar'' = None
      | NoRecords c \<Rightarrow> False"
    by blast
  then have "\<exists>m. snd (showStateMarker ?data ''Bihar'' ''2025-03'') = Drawn m \<and>
      popup_severity m = spec_median [5, 1, 3]"
    using c by (simp add: sel split: outcome.splits)
  then have "\<exists>m. snd (showStateMarker ?data ''Bihar'' ''2025-03'') = Drawn m \<and> popup_severity m = 3"
    by (simp add: spec_median_5_1_3)
  with ne show ?thesis by blast
qed

text \<open>
  C4. When no record has exactly the selected state, year and month, the call reports
  0 records and ends on the path without statistics: no category is computed, and
  the view is set to the coordinate of the state (when the table has one). When some
  record matches, the call never ends on that path. The selection holds only records
  equal to the query in all three fields: a record of Kerala for 2024-5 is not selected
  by a query for 2024-6.
\<close>

theorem empty_selection:
  "((\<forall>p \<in> set predictionData.
        \<not> (p_state p = state \<and> Some (p_year p) = fst (parseDate dateStr) \<and>
           Some (p_month p) = snd (parseDate dateStr))) \<longrightarrow>
      showStateMarker predictionData state dateStr = (0, NoRecords (STATE_COORDINATES state))) \<and>
   ((\<exists>p \<in> set predictionData.
        p_state p = state \<and> Some (p_year p) = fst (parseDate dateStr) \<and>
        Some (p_month p) = snd (parseDate dateStr)) \<longrightarrow>
      0 < fst (showStateMarker predictionData state dateStr) \<and>
      (\<forall>c. snd (showStateMarker predictionData state dateStr) \<noteq> NoRecords c)) \<and>
   (\<forall>p \<in> set (statePredictions predictionData state dateStr).
      p \<in> set predictionData \<and> p_state p = state \<and>
      parseDate dateStr = (Some (p_year p), Some (p_month p))) \<and>
   statePredictions
     [\<lparr>p_state = ''Kerala'', p_year = 2024, p_month = 5, p_drought_severity = severity\<rparr>]
     ''Kerala'' ''2024-06'' = []"
proof -
  have sel: "statePredictions predictionData state dateStr =
      filter (\<lambda>p. p_state p = state \<and> Some (p_year p) = fst (parseDate dateStr) \<and>
                  Some (p_month p) = snd (parseDate dateStr)) predictionData"
    by (simp add: statePredictions_def split: prod.splits)
  have none: "(\<forall>p \<in> set predictionData.
        \<not> (p_state p = state \<and> Some (p_year p) = fst (parseDate dateStr) \<and>
           Some (p_month p) = snd (parseDate dateStr))) \<longrightarrow>
      showStateMarker predictionData state dateStr = (0, NoRecords (STATE_COORDINATES state))"
  proof
    assume "\<forall>p \<in> set predictionData.
        \<not> (p_state p = state \<and> Some (p_year p) = fst (parseDate dateStr) \<and>
           Some (p_month p) = snd (parseDate dateStr))"
    then have "statePredictions predictionData state dateStr = []"
      unfolding sel by (simp add: filter_empty_conv)
    then show "showStateMarker predictionData state dateStr = (0, NoRecords (STATE_COORDINATES state))"
      by (simp add: showStateMarker_def)
  qed
  have some: "(\<exists>p \<in> set predictionData.
        p_state p = state \<and> Some (p_year p) = fst (parseDate dateStr) \<and>
        Some (p_month p) = snd (parseDate dateStr)) \<longrightarrow>
      0 < fst (showStateMarker predictionData state dateStr) \<and>
      (\<forall>c. snd (showStateMarker predictionData state dateStr) \<noteq> NoRecords c)"
  proof
    assume "\<exists>p \<in> set predictionData.
        p_state p = state \<and> Some (p_year p) = fst (parseDate dateStr) \<and>
        Some (p_month p) = snd (parseDate dateStr)"
    then have ne: "statePredictions predictionData state dateStr \<noteq> []"
      unfolding sel by (auto simp: filter_empty_conv)
    then show "0 < fst (showStateMarker predictionData state dateStr) \<and>
      (\<forall>c. snd (showStateMarker predictionData state dateStr) \<noteq> NoRecords c)"
      by (simp add: showStateMarker_nonempty Let_def split: option.splits)
  qed
  have exact: "\<forall>p \<in> set (statePredictions predictionData state dateStr).
      p \<in> set predictionData \<and> p_state p = state \<and>
      parseDate dateStr = (Some (p_year p), Some (p_month p))"
    unfolding sel by (auto simp: prod_eq_iff)
  have kerala: "statePredictions
     [\<lparr>p_state = ''Kerala'', p_year = 2024, p_month = 5, p_drought_severity = severity\<rparr>]
     ''Kerala'' ''2024-06'' = []"
    by (simp add: statePredictions_def parseDate_2024_06)
  from none some exact kerala show ?thesis by blast
qed

theorem empty_selection_witness:
  "showStateMarker
     [\<lparr>p_state = ''Kerala'', p_year = 2024, p_month = 5, p_drought_severity = 2\<rparr>]
     ''Kerala'' ''2024-06'' = (0, NoRecords (Some (10.8505, 76.2711))) \<and>
   0 < fst (showStateMarker
     [\<lparr>p_state = ''Kerala'', p_year = 2024, p_month = 6, p_drought_severity = 2\<rparr>]
     ''Kerala'' ''2024-06'') \<and>
   statePredictions
     [\<lparr>p_state = ''Kerala'', p_year = 2024, p_month = 6, p_drought_severity = 2\<rparr>]
     ''Kerala'' ''2024-06'' =
     [\<lparr>p_state = ''Kerala'', p_year = 2024, p_month = 6, p_drought_severity = 2\<rparr>]"
proof -
  have a: "showStateMarker
     [\<lparr>p_state = ''Kerala'', p_year = 2024, p_month = 5, p_drought_severity = 2\<rparr>]
     ''Kerala'' ''2024-06'' = (0, NoRecords (Some (10.8505, 76.2711)))"
    using empty_selection [of "[\<lparr>p_state = ''Kerala'', p_year = 2024, p_month = 5, p_drought_severity = 2\<rparr>]"
        "''Kerala''" "''2024-06''"]
    by (simp add: parseDate_2024_06 coordinates_Kerala)
  have b: "0 < fst (showStateMarker
     [\<lparr>p_state = ''Kerala'', p_year = 2024, p_month = 6, p_drought_severity = 2\<rparr>]
     ''Kerala'' ''2024-06'')"
    using empty_selection [of "[\<lparr>p_state = ''Kerala'', p_year = 2024, p_month = 6, p_drought_severity = 2\<rparr>]"
        "''Kerala''" "''2024-06''"]
    by (simp add: parseDate_2024_06)
  have c: "statePredictions
     [\<lparr>p_state = ''Kerala'', p_year = 2024, p_month = 6, p_drought_severity = 2\<rparr>]
     ''Kerala'' ''2024-06'' =
     [\<lparr>p_state = ''Kerala'', p_year = 2024, p_month = 6, p_drought_severity = 2\<rparr>]"
    by (simp add: statePredictions_def parseDate_2024_06)
  from a b c show ?thesis by blast
qed

text \<open>
  C1, as stated: for the two Bihar records of March 2025 with severities 2 and 4, the
  marker shows median 3, category Moderate Drought, colour \<open>#FCD37F\<close> and 2 samples.
  The script does not: 3 is above the threshold 2.8 of Moderate Drought.
\<close>

theorem bihar_scenario_not_moderate:
  "showStateMarker
     [\<lparr>p_state = ''Bihar'', p_year = 2025, p_month = 3, p_drought_severity = 2.0\<rparr>,
      \<lparr>p_state = ''Bihar'', p_year = 2025, p_month = 3, p_drought_severity = 4.0\<rparr>]
     ''Bihar'' ''2025-03'' \<noteq>
   (2, Drawn \<lparr>center = (25.0961, 85.3131), fillColor = ''#FCD37F'', color = ''#FCD37F'',
              popup_state = ''Bihar'', popup_severity = 3.0, popup_category = ''Moderate Drought'',
              popup_samples = 2\<rparr>)"
  by (simp add: showStateMarker_def statePredictions_def parseDate_2025_03 coordinates_Bihar
      Let_def severityToCategory_def categoryColor_def DROUGHT_COLORS_def)

text \<open>
  C1, amended: for the two Bihar records of March 2025 with severities 2 and 4, the
  marker shows median 3, category Severe Drought, colour \<open>#FFAA00\<close> and 2 samples.
\<close>

theorem bihar_scenario_severe:
  "showStateMarker
     [\<lparr>p_state = ''Bihar'', p_year = 2025, p_month = 3, p_drought_severity = 2.0\<rparr>,
      \<lparr>p_state = ''Bihar'', p_year = 2025, p_month = 3, p_drought_severity = 4.0\<rparr>]
     ''Bihar'' ''2025-03'' =
   (2, Drawn \<lparr>center = (25.0961, 85.3131), fillColor = ''#FFAA00'', color = ''#FFAA00'',
              popup_state = ''Bihar'', popup_severity = 3.0, popup_category = ''Severe Drought'',
              popup_samples = 2\<rparr>)"
  by (simp add: showStateMarker_def statePredictions_def parseDate_2025_03 coordinates_Bihar
      Let_def severityToCategory_def categoryColor_def DROUGHT_COLORS_def)


section \<open>Properties of date strings and of the period list\<close>

lemma digit_val_char: "d < 10 \<Longrightarrow> digit_val (digit_char d) = Some d"
proof -
  assume "d < 10"
  then have "d \<in> {0, 1, 2, 3, 4, 5, 6, 7, 8, 9}" by auto
  then show ?thesis
    by (auto simp: digit_val_def digit_char_def)
qed

lemma digit_char_not_dash: "d < 10 \<Longrightarrow> digit_char d \<noteq> CHR ''-''"
proof -
  assume "d < 10"
  then have "d \<in> {0, 1, 2, 3, 4, 5, 6, 7, 8, 9}" by auto
  then show ?thesis
    by (auto simp: digit_char_def)
qed

lemma digits_val_snoc:
  "digits_val (cs @ [c]) acc =
     (case digits_val cs acc of
        None \<Rightarrow> None
      | Some v \<Rightarrow> (case digit_val c of None \<Rightarrow> None | Some d \<Rightarrow> Some (10 * v + d)))"
  by (induction cs arbitrary: acc) (auto split: option.splits)

lemma digits_val_dec_nat: "digits_val (dec_nat n) 0 = Some n"
proof (induction n rule: dec_nat.induct)
  case (1 n)
  show ?case
  proof (cases "n < 10")
    case True
    then show ?thesis
      by (subst dec_nat.simps) (simp add: digit_val_char)
  next
    case False
    with 1 have "digits_val (dec_nat (n div 10)) 0 = Some (n div 10)" by simp
    with False show ?thesis
      by (subst dec_nat.simps) (simp add: digits_val_snoc digit_val_char)
  qed
qed

lemma dec_nat_no_dash: "CHR ''-'' \<notin> set (dec_nat n)"
proof (induction n rule: dec_nat.induct)
  case (1 n)
  show ?case
  proof (cases "n < 10")
    case True
    then show ?thesis
      using digit_char_not_dash [of n] by (subst dec_nat.simps) auto
  next
    case False
    with 1 have "CHR ''-'' \<notin> set (dec_nat (n div 10))" by simp
    moreover have "digit_char (n mod 10) \<noteq> CHR ''-''"
      by (rule digit_char_not_dash) simp
    ultimately show ?thesis
      using False by (subst dec_nat.simps) auto
  qed
qed

lemma split_dash_no_dash: "CHR ''-'' \<notin> set w \<Longrightarrow> split_dash w = [w]"
  by (induction w) auto

lemma split_dash_piece:
  "CHR ''-'' \<notin> set w \<Longrightarrow> split_dash (w @ CHR ''-'' # rest) = w # split_dash rest"
  by (induction w) auto

lemma js_Number_dec_nat: "js_Number (dec_nat n) = Some (int n)"
  by (simp add: js_Number_def digits_val_dec_nat)

lemma parseDate_ymTemplate:
  assumes "0 \<le> y" and "0 \<le> m"
  shows "parseDate (ymTemplate y m) = (Some y, Some m)"
proof -
  have "split_dash (ymTemplate y m) = [dec_nat (nat y), dec_nat (nat m)]"
    using assms
    by (simp add: ymTemplate_def js_String_def split_dash_piece split_dash_no_dash dec_nat_no_dash)
  then show ?thesis
    using assms by (simp add: parseDate_def js_Number_dec_nat)
qed

lemma ym_key_ymTemplate: "0 \<le> y \<Longrightarrow> 0 \<le> m \<Longrightarrow> ym_key (ymTemplate y m) = Some (y * 12 + m)"
  by (simp add: ym_key_def parseDate_ymTemplate)

lemma set_fold_set_add:
  "set (fold (\<lambda>p members. if P p then set_add members (g p) else members) xs acc) =
     set acc \<union> g ` {p \<in> set xs. P p}"
  by (induction xs arbitrary: acc) (auto simp: set_add_def)

lemma distinct_fold_set_add:
  "distinct acc \<Longrightarrow>
   distinct (fold (\<lambda>p members. if P p then set_add members (g p) else members) xs acc)"
  by (induction xs arbitrary: acc) (auto simp: set_add_def)

lemma set_ymSet:
  "set (ymSet predictionData) =
     (\<lambda>p. ymTemplate (p_year p) (p_month p)) `
       {p \<in> set predictionData. 2024 \<le> p_year p \<and> p_year p \<le> 2026}"
  unfolding ymSet_def by (simp add: set_fold_set_add)

lemma distinct_ymSet: "distinct (ymSet predictionData)"
  unfolding ymSet_def by (simp add: distinct_fold_set_add)

lemma set_statesWithData: "set (statesWithData predictionData) = p_state ` set predictionData"
  using set_fold_set_add [of "\<lambda>_. True" "\<lambda>x. x" "map p_state predictionData" "[]"]
  by (simp add: statesWithData_def)

lemma distinct_statesWithData: "distinct (statesWithData predictionData)"
  using distinct_fold_set_add [of "[]" "\<lambda>_. True" "\<lambda>x. x" "map p_state predictionData"]
  by (simp add: statesWithData_def)

lemma sortPeriods_example: "sortPeriods [''2024-9'', ''2024-10'', ''2024-1''] = Some [''2024-1'', ''2024-9'', ''2024-10'']"
  by (simp add: sortPeriods_def ym_key_def parseDate_def js_Number_def digit_val_def)

lemma sortedPeriods_pairs:
  assumes months: "\<forall>p \<in> set predictionData. 2024 \<le> p_year p \<and> p_year p \<le> 2026 \<longrightarrow> 0 \<le> p_month p"
  shows "\<exists>pairs. sortedPeriods predictionData = Some (map (\<lambda>(y, m). ymTemplate y m) pairs) \<and>
           distinct pairs \<and>
           set pairs = {(p_year p, p_month p) | p.
                        p \<in> set predictionData \<and> 2024 \<le> p_year p \<and> p_year p \<le> 2026} \<and>
           sorted (map (\<lambda>(y, m). y * 12 + m) pairs)"
proof -
  define S where "S = {(p_year p, p_month p) | p.
                        p \<in> set predictionData \<and> 2024 \<le> p_year p \<and> p_year p \<le> 2026}"
  define render :: "int \<times> int \<Rightarrow> string" where "render = (\<lambda>(y, m). ymTemplate y m)"
  define decode :: "string \<Rightarrow> int \<times> int" where
    "decode = (\<lambda>s. (the (fst (parseDate s)), the (snd (parseDate s))))"
  define k :: "string \<Rightarrow> int" where "k = (\<lambda>s. the (ym_key s))"
  define ss where "ss = sort_key k (ymSet predictionData)"
  have nonneg: "0 \<le> fst q \<and> 0 \<le> snd q" if "q \<in> S" for q
    using that months unfolding S_def by auto
  have decode_render: "decode (render q) = q" if "q \<in> S" for q
    using nonneg [OF that] by (cases q) (simp add: decode_def render_def parseDate_ymTemplate)
  have key_render: "ym_key (render q) = Some (fst q * 12 + snd q)" if "q \<in> S" for q
    using nonneg [OF that] by (cases q) (simp add: render_def ym_key_ymTemplate)
  have set_xs: "set (ymSet predictionData) = render ` S"
    unfolding set_ymSet S_def render_def by auto
  have all_keys: "list_all (\<lambda>s. ym_key s \<noteq> None) (ymSet predictionData)"
    unfolding list_all_iff set_xs using key_render by auto
  have sp: "sortedPeriods predictionData = Some ss"
    using all_keys by (simp add: sortedPeriods_def sortPeriods_def ss_def k_def)
  have set_ss: "set ss = render ` S"
    by (simp add: ss_def set_xs)
  have distinct_ss: "distinct ss"
    by (simp add: ss_def distinct_ymSet)
  have render_decode: "render (decode s) = s" if "s \<in> set ss" for s
    using that decode_render unfolding set_ss by auto
  have "map render (map decode ss) = ss"
    using render_decode by (simp add: map_idI)
  then have a: "sortedPeriods predictionData = Some (map (\<lambda>(y, m). ymTemplate y m) (map decode ss))"
    using sp by (simp add: render_def)
  have "inj_on decode (set ss)"
    by (rule inj_on_inverseI [of _ render]) (rule render_decode)
  then have b: "distinct (map decode ss)"
    using distinct_ss by (simp add: distinct_map)
  have c: "set (map decode ss) = S"
    using decode_render by (force simp: set_ss)
  have key_eq: "(\<lambda>(y, m). y * 12 + m) (decode s) = k s" if "s \<in> set ss" for s
  proof -
    from that obtain q where q: "q \<in> S" and s: "s = render q"
      unfolding set_ss by auto
    show ?thesis
      using decode_render [OF q] key_render [OF q] by (cases q) (simp add: s k_def)
  qed
  have e: "map (\<lambda>(y, m). y * 12 + m) (map decode ss) = map k ss"
    using key_eq by simp
  have d: "sorted (map (\<lambda>(y, m). y * 12 + m) (map decode ss))"
    unfolding e by (simp add: ss_def)
  from a b c d show ?thesis
    unfolding S_def by blast
qed

lemma sort_key_unique:
  assumes "distinct xs" and "distinct ys" and "set xs = set ys" and "inj_on k (set xs)"
  shows "sort_key k xs = sort_key k ys"
proof -
  have "map k (sort_key k xs) = map k (sort_key k ys)"
  proof (rule sorted_distinct_set_unique)
    show "sorted (map k (sort_key k xs))" and "sorted (map k (sort_key k ys))"
      by simp_all
    show "distinct (map k (sort_key k xs))"
      using assms(1,4) by (simp add: distinct_map)
    show "distinct (map k (sort_key k ys))"
      using assms(2,3,4) by (simp add: distinct_map)
    show "set (map k (sort_key k xs)) = set (map k (sort_key k ys))"
      using assms(3) by simp
  qed
  moreover have "inj_on k (set (sort_key k xs) \<union> set (sort_key k ys))"
    using assms(3,4) by simp
  ultimately show ?thesis
    by (simp add: inj_on_map_eq_map)
qed

lemma stateOptions_permuted:
  assumes "mset xs = mset ys"
  shows "stateOptions xs = stateOptions ys"
proof -
  have "set xs = set ys"
    using assms by (rule mset_eq_setD)
  then have "set (statesWithData xs) = set (statesWithData ys)"
    by (simp add: set_statesWithData)
  then show ?thesis
    unfolding stateOptions_def
    using sort_key_unique [of "statesWithData xs" "statesWithData ys" "\<lambda>x. x"]
    by (simp add: distinct_statesWithData)
qed

lemma sortedPeriods_permuted:
  assumes perm: "mset xs = mset ys"
    and months: "\<forall>p \<in> set xs. 2024 \<le> p_year p \<and> p_year p \<le> 2026 \<longrightarrow> 1 \<le> p_month p \<and> p_month p \<le> 12"
  shows "sortedPeriods xs = sortedPeriods ys"
proof -
  have sets: "set xs = set ys"
    using perm by (rule mset_eq_setD)
  have same: "set (ymSet xs) = set (ymSet ys)"
    by (simp add: set_ymSet sets)
  have key: "ym_key s = Some (p_year p * 12 + p_month p)"
    if "p \<in> set xs" "2024 \<le> p_year p" "p_year p \<le> 2026" "s = ymTemplate (p_year p) (p_month p)" for s p
  proof -
    from that months have "0 \<le> p_year p" and "0 \<le> p_month p"
      by auto
    then show ?thesis
      using that(4) by (simp add: ym_key_ymTemplate)
  qed
  have all_x: "list_all (\<lambda>s. ym_key s \<noteq> None) (ymSet xs)"
    unfolding list_all_iff set_ymSet using key by auto
  then have all_y: "list_all (\<lambda>s. ym_key s \<noteq> None) (ymSet ys)"
    unfolding list_all_iff same .
  have inj: "inj_on (\<lambda>s. the (ym_key s)) (set (ymSet xs))"
  proof (rule inj_onI)
    fix s t
    assume s: "s \<in> set (ymSet xs)" and t: "t \<in> set (ymSet xs)"
      and eq: "the (ym_key s) = the (ym_key t)"
    from s obtain p where p: "p \<in> set xs" "2024 \<le> p_year p" "p_year p \<le> 2026"
        "s = ymTemplate (p_year p) (p_month p)"
      unfolding set_ymSet by auto
    from t obtain q where q: "q \<in> set xs" "2024 \<le> p_year q" "p_year q \<le> 2026"
        "t = ymTemplate (p_year q) (p_month q)"
      unfolding set_ymSet by auto
    have "p_year p * 12 + p_month p = p_year q * 12 + p_month q"
      using eq key [OF p] key [OF q] by simp
    moreover have "1 \<le> p_month p \<and> p_month p \<le> 12" "1 \<le> p_month q \<and> p_month q \<le> 12"
      using months p q by auto
    ultimately have "p_year p = p_year q \<and> p_month p = p_month q"
      by presburger
    then show "s = t"
      using p(4) q(4) by simp
  qed
  have "sort_key (\<lambda>s. the (ym_key s)) (ymSet xs) = sort_key (\<lambda>s. the (ym_key s)) (ymSet ys)"
    using distinct_ymSet distinct_ymSet same inj by (rule sort_key_unique)
  then show ?thesis
    using all_x all_y by (simp add: sortedPeriods_def sortPeriods_def)
qed

text \<open>
  C7. For every loaded sequence of records (months not negative, as the data model has
  them), the sorted period list is the list of the distinct (year, month) pairs of the
  records whose year is in 2024 to 2026, each printed as \<open>year-month\<close>, in ascending
  order of \<open>year*12 + month\<close>. The order is by that number, not by the text: the
  period strings 2024-9, 2024-10, 2024-1 sort to 2024-1, 2024-9, 2024-10.
\<close>

theorem period_list:
  "((\<forall>p \<in> set predictionData. 2024 \<le> p_year p \<and> p_year p \<le> 2026 \<longrightarrow> 0 \<le> p_month p) \<longrightarrow>
     (\<exists>pairs. sortedPeriods predictionData = Some (map (\<lambda>(y, m). ymTemplate y m) pairs) \<and>
        distinct pairs \<and>
        set pairs = {(p_year p, p_month p) | p.
                     p \<in> set predictionData \<and> 2024 \<le> p_year p \<and> p_year p \<le> 2026} \<and>
        sorted (map (\<lambda>(y, m). y * 12 + m) pairs))) \<and>
   sortPeriods [''2024-9'', ''2024-10'', ''2024-1''] = Some [''2024-1'', ''2024-9'', ''2024-10'']"
  using sortedPeriods_pairs [of predictionData] sortPeriods_example by blast

theorem period_list_witness:
  "\<exists>pairs.
     sortedPeriods
       [\<lparr>p_state = ''Goa'', p_year = 2024, p_month = 9, p_drought_severity = 1\<rparr>,
        \<lparr>p_state = ''Goa'', p_year = 2023, p_month = 5, p_drought_severity = 1\<rparr>,
        \<lparr>p_state = ''Goa'', p_year = 2024, p_month = 10, p_drought_severity = 1\<rparr>,
        \<lparr>p_state = ''Bihar'', p_year = 2024, p_month = 9, p_drought_severity = 2\<rparr>,
        \<lparr>p_state = ''Goa'', p_year = 2024, p_month = 1, p_drought_severity = 1\<rparr>] =
       Some (map (\<lambda>(y, m). ymTemplate y m) pairs) \<and>
     distinct pairs \<and> sorted (map (\<lambda>(y, m). y * 12 + m) pairs)"
proof -
  let ?data = "[\<lparr>p_state = ''Goa'', p_year = 2024, p_month = 9, p_drought_severity = 1\<rparr>,
        \<lparr>p_state = ''Goa'', p_year = 2023, p_month = 5, p_drought_severity = 1\<rparr>,
        \<lparr>p_state = ''Goa'', p_year = 2024, p_month = 10, p_drought_severity = 1\<rparr>,
        \<lparr>p_state = ''Bihar'', p_year = 2024, p_month = 9, p_drought_severity = 2\<rparr>,
        \<lparr>p_state = ''Goa'', p_year = 2024, p_month = 1, p_drought_severity = 1\<rparr>]"
  have months: "\<forall>p \<in> set ?data. 2024 \<le> p_year p \<and> p_year p \<le> 2026 \<longrightarrow> 0 \<le> p_month p"
    by simp
  from period_list [of ?data] months show ?thesis by blast
qed

section \<open>Properties of the state-district index\<close>

lemma addRecord_cases:
  "addRecord m r =
     (case (js_or (record_state r) (record_State r), js_or (record_district r) (record_District r)) of
        (Some s, Some d) \<Rightarrow>
          if s \<noteq> [] \<and> d \<noteq> []
          then m(s \<mapsto> (case m s of None \<Rightarrow> [d] | Some ds \<Rightarrow> if d \<in> set ds then ds else ds @ [d]))
          else m
      | _ \<Rightarrow> m)"
  by (auto simp: addRecord_def truthy_def Let_def fun_upd_idem split: option.splits)

lemma addRecord_None:
  "addRecord m r s = None \<longleftrightarrow>
     m s = None \<and>
     \<not> (s \<noteq> [] \<and> js_or (record_state r) (record_State r) = Some s \<and>
        truthy (js_or (record_district r) (record_District r)))"
  by (auto simp: addRecord_cases truthy_def split: option.splits)

lemma addRecord_set:
  "(case addRecord m r s of None \<Rightarrow> {} | Some ds \<Rightarrow> set ds) =
     (case m s of None \<Rightarrow> {} | Some ds \<Rightarrow> set ds) \<union>
     {d. s \<noteq> [] \<and> d \<noteq> [] \<and> js_or (record_state r) (record_State r) = Some s \<and>
         js_or (record_district r) (record_District r) = Some d}"
  by (auto simp: addRecord_cases split: option.splits if_splits)

lemma addRecord_distinct:
  "(\<And>s ds. m s = Some ds \<Longrightarrow> distinct ds) \<Longrightarrow> addRecord m r s = Some ds \<Longrightarrow> distinct ds"
  by (auto simp: addRecord_cases split: option.splits if_splits)

lemma fold_addRecord_None:
  "fold (\<lambda>r m. addRecord m r) records m s = None \<longleftrightarrow>
     m s = None \<and>
     \<not> (\<exists>r \<in> set records. s \<noteq> [] \<and> js_or (record_state r) (record_State r) = Some s \<and>
        truthy (js_or (record_district r) (record_District r)))"
  by (induction records arbitrary: m) (auto simp: addRecord_None)

lemma fold_addRecord_set:
  "(case fold (\<lambda>r m. addRecord m r) records m s of None \<Rightarrow> {} | Some ds \<Rightarrow> set ds) =
     (case m s of None \<Rightarrow> {} | Some ds \<Rightarrow> set ds) \<union>
     {d. \<exists>r \<in> set records. s \<noteq> [] \<and> d \<noteq> [] \<and>
         js_or (record_state r) (record_State r) = Some s \<and>
         js_or (record_district r) (record_District r) = Some d}"
proof (induction records arbitrary: m)
  case Nil
  then show ?case by simp
next
  case (Cons r records)
  show ?case
    unfolding fold_simps Cons.IH addRecord_set by auto
qed

lemma fold_addRecord_distinct:
  "(\<And>s ds. m s = Some ds \<Longrightarrow> distinct ds) \<Longrightarrow>
   fold (\<lambda>r m. addRecord m r) records m s = Some ds \<Longrightarrow> distinct ds"
proof (induction records arbitrary: m s ds)
  case Nil
  then show ?case by simp
next
  case (Cons r records)
  have "\<And>s ds. addRecord m r s = Some ds \<Longrightarrow> distinct ds"
    using Cons.prems(1) by (rule addRecord_distinct)
  then show ?case
    using Cons.IH [of "addRecord m r" s ds] Cons.prems(2) by simp
qed

lemma index_entry:
  "populateStateDistrictMap (Some records) Map.empty s =
     (let ds = {d. \<exists>r \<in> set records. s \<noteq> [] \<and> d \<noteq> [] \<and>
                   js_or (record_state r) (record_State r) = Some s \<and>
                   js_or (record_district r) (record_District r) = Some d}
      in if ds = {} then None else Some (sorted_list_of_set ds))"
proof -
  define D where "D = {d. \<exists>r \<in> set records. s \<noteq> [] \<and> d \<noteq> [] \<and>
                   js_or (record_state r) (record_State r) = Some s \<and>
                   js_or (record_district r) (record_District r) = Some d}"
  define m where "m = fold (\<lambda>r m. addRecord m r) records Map.empty"
  have set_m: "(case m s of None \<Rightarrow> {} | Some ds \<Rightarrow> set ds) = D"
    unfolding m_def D_def fold_addRecord_set by simp
  have none_m: "m s = None \<longleftrightarrow> D = {}"
    unfolding m_def D_def fold_addRecord_None by (auto simp: truthy_def split: option.splits)
  have pop: "populateStateDistrictMap (Some records) Map.empty s = map_option sort (m s)"
    by (simp add: populateStateDistrictMap_def m_def)
  have "populateStateDistrictMap (Some records) Map.empty s =
      (if D = {} then None else Some (sorted_list_of_set D))"
  proof (cases "m s")
    case None
    then show ?thesis
      using none_m pop by simp
  next
    case (Some ds)
    then have "distinct ds"
      using fold_addRecord_distinct [of Map.empty records s ds] by (simp add: m_def)
    moreover have "set ds = D"
      using set_m Some by simp
    ultimately have "sort ds = sorted_list_of_set D"
      by (metis sorted_list_of_set_sort_remdups distinct_remdups_id)
    moreover have "D \<noteq> {}"
      using none_m Some by simp
    ultimately show ?thesis
      using pop Some by simp
  qed
  then show ?thesis
    unfolding D_def Let_def .
qed

lemma no_district_skipped:
  "record_district r = None \<Longrightarrow> record_District r = None \<Longrightarrow> addRecord m r = m"
  by (simp add: addRecord_cases js_or_def truthy_def split: option.splits)

text \<open>
  C8. Built from an empty index, the state-district index holds for a state exactly the
  districts of the records of that state, each once however many records repeat the
  pair, in ascending order; a state with no such record has no entry. A record whose
  district is missing leaves the index as it is, and the builder goes on.
\<close>

theorem index_districts:
  "(case populateStateDistrictMap (Some records) Map.empty s of
      None \<Rightarrow>
        \<not> (\<exists>r \<in> set records. \<exists>d. s \<noteq> [] \<and> d \<noteq> [] \<and>
             js_or (record_state r) (record_State r) = Some s \<and>
             js_or (record_district r) (record_District r) = Some d)
    | Some ds \<Rightarrow>
        sorted ds \<and> distinct ds \<and> ds \<noteq> [] \<and>
        set ds = {d. \<exists>r \<in> set records. s \<noteq> [] \<and> d \<noteq> [] \<and>
                    js_or (record_state r) (record_State r) = Some s \<and>
                    js_or (record_district r) (record_District r) = Some d}) \<and>
   (record_district r = None \<and> record_District r = None \<longrightarrow>
      populateStateDistrictMap (Some (r # records)) Map.empty =
      populateStateDistrictMap (Some records) Map.empty)"
proof -
  define D where "D = {d. \<exists>r \<in> set records. s \<noteq> [] \<and> d \<noteq> [] \<and>
                    js_or (record_state r) (record_State r) = Some s \<and>
                    js_or (record_district r) (record_District r) = Some d}"
  have fin: "finite D"
  proof (rule finite_subset)
    show "D \<subseteq> (\<lambda>r. the (js_or (record_district r) (record_District r))) ` set records"
      unfolding D_def by force
    show "finite ((\<lambda>r. the (js_or (record_district r) (record_District r))) ` set records)"
      by simp
  qed
  have entry: "populateStateDistrictMap (Some records) Map.empty s =
      (if D = {} then None else Some (sorted_list_of_set D))"
    unfolding D_def index_entry Let_def ..
  have first: "case populateStateDistrictMap (Some records) Map.empty s of
      None \<Rightarrow> \<not> (\<exists>r \<in> set records. \<exists>d. s \<noteq> [] \<and> d \<noteq> [] \<and>
             js_or (record_state r) (record_State r) = Some s \<and>
             js_or (record_district r) (record_District r) = Some d)
    | Some ds \<Rightarrow> sorted ds \<and> distinct ds \<and> ds \<noteq> [] \<and> set ds = D"
  proof (cases "D = {}")
    case True
    then have "\<not> (\<exists>r \<in> set records. \<exists>d. s \<noteq> [] \<and> d \<noteq> [] \<and>
             js_or (record_state r) (record_State r) = Some s \<and>
             js_or (record_district r) (record_District r) = Some d)"
      unfolding D_def by blast
    then show ?thesis
      using True entry by simp
  next
    case False
    moreover have "sorted_list_of_set D \<noteq> []"
      using False fin by (simp add: sorted_list_of_set_eq_Nil_iff)
    ultimately show ?thesis
      using entry fin by simp
  qed
  have second: "record_district r = None \<and> record_District r = None \<longrightarrow>
      populateStateDistrictMap (Some (r # records)) Map.empty =
      populateStateDistrictMap (Some records) Map.empty"
    by (simp add: populateStateDistrictMap_def no_district_skipped)
  from first second show ?thesis
    unfolding D_def by blast
qed

lemma js_Number_3: "js_Number ''3'' = Some 3"
  by (simp add: js_Number_def digit_val_def)

lemma js_Number_2025: "js_Number ''2025'' = Some 2025"
  by (simp add: js_Number_def digit_val_def)

theorem index_districts_witness:
  "populateStateDistrictMap
     (Some [empty_record\<lparr>record_state := Some ''Goa'', record_district := Some ''South Goa'', record_month := Some 1\<rparr>,
            empty_record\<lparr>record_state := Some ''Goa'', record_district := Some ''North Goa'', record_month := Some 1\<rparr>,
            empty_record\<lparr>record_state := Some ''Goa'', record_district := Some ''South Goa'', record_month := Some 2\<rparr>])
     Map.empty ''Goa'' = Some [''North Goa'', ''South Goa''] \<and>
   populateStateDistrictMap
     (Some [empty_record\<lparr>record_state := Some ''Goa'', record_month := Some 2\<rparr>,
            empty_record\<lparr>record_state := Some ''Goa'', record_district := Some ''South Goa'', record_month := Some 1\<rparr>])
     Map.empty =
   populateStateDistrictMap
     (Some [empty_record\<lparr>record_state := Some ''Goa'', record_district := Some ''South Goa'', record_month := Some 1\<rparr>])
     Map.empty"
proof -
  let ?a = "empty_record\<lparr>record_state := Some ''Goa'', record_district := Some ''South Goa'', record_month := Some 1\<rparr>"
  let ?b = "empty_record\<lparr>record_state := Some ''Goa'', record_district := Some ''North Goa'', record_month := Some 1\<rparr>"
  let ?c = "empty_record\<lparr>record_state := Some ''Goa'', record_district := Some ''South Goa'', record_month := Some 2\<rparr>"
  let ?n = "empty_record\<lparr>record_state := Some ''Goa'', record_month := Some 2\<rparr>"
  have obs: "{d. \<exists>r \<in> set [?a, ?b, ?c]. ''Goa'' \<noteq> [] \<and> d \<noteq> [] \<and>
                    js_or (record_state r) (record_State r) = Some ''Goa'' \<and>
                    js_or (record_district r) (record_District r) = Some d} = {''South Goa'', ''North Goa''}"
    by (auto simp: js_or_def truthy_def empty_record_def)
  have "populateStateDistrictMap (Some [?a, ?b, ?c]) Map.empty ''Goa'' \<noteq> None"
    using index_districts [of "[?a, ?b, ?c]" "''Goa''" ?n]
    by (auto simp: js_or_def truthy_def empty_record_def split: option.splits)
  then obtain ds where ds: "populateStateDistrictMap (Some [?a, ?b, ?c]) Map.empty ''Goa'' = Some ds"
    by blast
  with index_districts [of "[?a, ?b, ?c]" "''Goa''" ?n]
  have "sorted ds \<and> distinct ds \<and> set ds = {''South Goa'', ''North Goa''}"
    unfolding obs by simp
  then have "ds = [''North Goa'', ''South Goa'']"
    using sorted_distinct_set_unique [of ds "[''North Goa'', ''South Goa'']"] by auto
  with ds have first: "populateStateDistrictMap (Some [?a, ?b, ?c]) Map.empty ''Goa'' =
      Some [''North Goa'', ''South Goa'']"
    by simp
  have "record_district ?n = None \<and> record_District ?n = None"
    by (simp add: empty_record_def)
  with index_districts [of "[?a]" "''Goa''" ?n]
  have second: "populateStateDistrictMap (Some [?n, ?a]) Map.empty =
      populateStateDistrictMap (Some [?a]) Map.empty"
    by blast
  from first second show ?thesis by blast
qed

section \<open>Order independence\<close>

lemma index_permuted:
  assumes "mset us = mset vs"
  shows "populateStateDistrictMap (Some us) Map.empty = populateStateDistrictMap (Some vs) Map.empty"
proof
  fix s
  have "set us = set vs"
    using assms by (rule mset_eq_setD)
  then show "populateStateDistrictMap (Some us) Map.empty s = populateStateDistrictMap (Some vs) Map.empty s"
    by (simp only: index_entry)
qed

text \<open>
  C9. The index builder does not depend on the order of the records: for a sequence
  and any permutation of it (months 1 to 12, as the data model has them), the sorted
  state list and the sorted period list of the map script are the same, and so is the
  state-district index built from an empty index.
\<close>

theorem order_independent:
  "(mset xs = mset ys \<longrightarrow>
     (\<forall>p \<in> set xs. 2024 \<le> p_year p \<and> p_year p \<le> 2026 \<longrightarrow> 1 \<le> p_month p \<and> p_month p \<le> 12) \<longrightarrow>
     stateOptions xs = stateOptions ys \<and> sortedPeriods xs = sortedPeriods ys) \<and>
   (mset us = mset vs \<longrightarrow>
     populateStateDistrictMap (Some us) Map.empty = populateStateDistrictMap (Some vs) Map.empty)"
  using stateOptions_permuted [of xs ys] sortedPeriods_permuted [of xs ys] index_permuted [of us vs]
  by blast

theorem order_independent_witness:
  "stateOptions
     [\<lparr>p_state = ''Goa'', p_year = 2024, p_month = 10, p_drought_severity = 1\<rparr>,
      \<lparr>p_state = ''Bihar'', p_year = 2024, p_month = 9, p_drought_severity = 2\<rparr>] =
   stateOptions
     [\<lparr>p_state = ''Bihar'', p_year = 2024, p_month = 9, p_drought_severity = 2\<rparr>,
      \<lparr>p_state = ''Goa'', p_year = 2024, p_month = 10, p_drought_severity = 1\<rparr>] \<and>
   sortedPeriods
     [\<lparr>p_state = ''Goa'', p_year = 2024, p_month = 10, p_drought_severity = 1\<rparr>,
      \<lparr>p_state = ''Bihar'', p_year = 2024, p_month = 9, p_drought_severity = 2\<rparr>] =
   sortedPeriods
     [\<lparr>p_state = ''Bihar'', p_year = 2024, p_month = 9, p_drought_severity = 2\<rparr>,
      \<lparr>p_state = ''Goa'', p_year = 2024, p_month = 10, p_drought_severity = 1\<rparr>] \<and>
   populateStateDistrictMap
     (Some [empty_record\<lparr>record_state := Some ''Goa'', record_district := Some ''South Goa''\<rparr>,
            empty_record\<lparr>record_State := Some ''Goa'', record_District := Some ''North Goa''\<rparr>])
     Map.empty =
   populateStateDistrictMap
     (Some [empty_record\<lparr>record_State := Some ''Goa'', record_District := Some ''North Goa''\<rparr>,
            empty_record\<lparr>record_state := Some ''Goa'', record_district := Some ''South Goa''\<rparr>])
     Map.empty"
proof -
  let ?a = "\<lparr>p_state = ''Goa'', p_year = 2024, p_month = 10, p_drought_severity = 1\<rparr>"
  let ?b = "\<lparr>p_state = ''Bihar'', p_year = 2024, p_month = 9, p_drought_severity = 2\<rparr>"
  let ?u = "empty_record\<lparr>record_state := Some ''Goa'', record_district := Some ''South Goa''\<rparr>"
  let ?v = "empty_record\<lparr>record_State := Some ''Goa'', record_District := Some ''North Goa''\<rparr>"
  have perm: "mset [?a, ?b] = mset [?b, ?a]"
    by (simp add: add.commute)
  have months: "\<forall>p \<in> set [?a, ?b].
      2024 \<le> p_year p \<and> p_year p \<le> 2026 \<longrightarrow> 1 \<le> p_month p \<and> p_month p \<le> 12"
    by simp
  have perm2: "mset [?u, ?v] = mset [?v, ?u]"
    by (simp add: add.commute)
  from order_independent [of "[?a, ?b]" "[?b, ?a]" "[?u, ?v]" "[?v, ?u]"] perm months perm2
  show ?thesis by blast
qed

section \<open>Field spellings\<close>

lemma matches_capitalised:
  assumes "record_State r = None" "record_District r = None" "record_Month r = None" "record_Year r = None"
  shows "matches state district month year (capitalised r) = matches state district month year r"
  using assms by (auto simp: matches_def capitalised_def loose_eq_def)

lemma addRecord_capitalised:
  assumes "record_State r = None" "record_District r = None"
  shows "addRecord m (capitalised r) = addRecord m r"
  using assms by (simp add: addRecord_cases capitalised_def js_or_def truthy_def split: option.splits)

lemma displayPrediction_capitalised:
  "displayPrediction (capitalised r) state district month year =
   displayPrediction r state district month year"
  by (simp add: displayPrediction_def capitalised_def)

lemma find_capitalised:
  assumes "\<forall>r \<in> set records. record_State r = None \<and> record_District r = None \<and>
             record_Month r = None \<and> record_Year r = None"
  shows "find (matches state district month year) (map capitalised records) =
     map_option capitalised (find (matches state district month year) records)"
  using assms by (induction records) (simp_all add: matches_capitalised)

lemma fold_addRecord_capitalised:
  assumes "\<forall>r \<in> set records. record_State r = None \<and> record_District r = None"
  shows "fold (\<lambda>r m. addRecord m r) (map capitalised records) m = fold (\<lambda>r m. addRecord m r) records m"
  using assms by (induction records arbitrary: m) (simp_all add: addRecord_capitalised)

lemma loose_eq_iff: "loose_eq field selected \<longleftrightarrow> (\<exists>n. field = Some n \<and> js_Number selected = Some n)"
  by (simp add: loose_eq_def split: option.splits)

text \<open>
  C5, as stated: both the lookup and the index builder prefer the lowercase spelling
  when a record has both. The lookup does not: the record below has \<open>state\<close> Bihar and
  \<open>State\<close> Kerala, the index builder files it under Bihar only, and the lookup for
  Kerala still matches it, on the capitalised field.
\<close>

theorem lookup_matches_on_capitalised_field:
  "matches ''Kerala'' ''Patna'' ''3'' ''2025''
     (empty_record\<lparr>record_state := Some ''Bihar'', record_State := Some ''Kerala'',
                   record_district := Some ''Patna'', record_month := Some 3,
                   record_year := Some 2025\<rparr>) \<and>
   js_or (Some ''Bihar'') (Some ''Kerala'') = Some ''Bihar'' \<and>
   populateStateDistrictMap
     (Some [empty_record\<lparr>record_state := Some ''Bihar'', record_State := Some ''Kerala'',
                         record_district := Some ''Patna'', record_month := Some 3,
                         record_year := Some 2025\<rparr>])
     Map.empty ''Kerala'' = None \<and>
   populateStateDistrictMap
     (Some [empty_record\<lparr>record_state := Some ''Bihar'', record_State := Some ''Kerala'',
                         record_district := Some ''Patna'', record_month := Some 3,
                         record_year := Some 2025\<rparr>])
     Map.empty ''Bihar'' = Some [''Patna'']"
  by (simp add: matches_def empty_record_def loose_eq_def js_Number_3 js_Number_2025
      populateStateDistrictMap_def addRecord_def js_or_def truthy_def Let_def)

text \<open>
  C5, amended. A record written with the capitalised names is looked up, shown and
  indexed exactly as the same record written with the lowercase names. When a record
  has both spellings, the index builder takes the lowercase state and district (when
  not empty). The lookup does not prefer a spelling: it accepts a record exactly when,
  for each of state, district, month and year on its own, the lowercase or the
  capitalised field equals the selected value, and the panel then shows that record.
\<close>

theorem spelling_fallback:
  "((\<forall>r \<in> set records. record_State r = None \<and> record_District r = None \<and>
        record_Month r = None \<and> record_Year r = None) \<longrightarrow>
      getPrediction (Some (map capitalised records)) state district month year random =
        getPrediction (Some records) state district month year random \<and>
      populateStateDistrictMap (Some (map capitalised records)) stateDistrictMap =
        populateStateDistrictMap (Some records) stateDistrictMap \<and>
      (\<forall>r \<in> set records.
         matches state district month year (capitalised r) = matches state district month year r)) \<and>
   (record_state r = Some s \<and> s \<noteq> [] \<and> record_district r = Some d \<and> d \<noteq> [] \<longrightarrow>
      populateStateDistrictMap (Some [r]) Map.empty = [s \<mapsto> [d]]) \<and>
   (matches state district month year r \<longleftrightarrow>
      (record_state r = Some state \<or> record_State r = Some state) \<and>
      (record_district r = Some district \<or> record_District r = Some district) \<and>
      ((\<exists>n. record_month r = Some n \<and> js_Number month = Some n) \<or>
       (\<exists>n. record_Month r = Some n \<and> js_Number month = Some n)) \<and>
      ((\<exists>n. record_year r = Some n \<and> js_Number year = Some n) \<or>
       (\<exists>n. record_Year r = Some n \<and> js_Number year = Some n))) \<and>
   (state \<noteq> [] \<and> district \<noteq> [] \<and> month \<noteq> [] \<and> year \<noteq> [] \<and>
    matches state district month year r \<longrightarrow>
      getPrediction (Some (r # rest)) state district month year random =
        Panel (displayPrediction r state district month year))"
proof -
  have first: "(\<forall>r \<in> set records. record_State r = None \<and> record_District r = None \<and>
        record_Month r = None \<and> record_Year r = None) \<longrightarrow>
      getPrediction (Some (map capitalised records)) state district month year random =
        getPrediction (Some records) state district month year random \<and>
      populateStateDistrictMap (Some (map capitalised records)) stateDistrictMap =
        populateStateDistrictMap (Some records) stateDistrictMap \<and>
      (\<forall>r \<in> set records.
         matches state district month year (capitalised r) = matches state district month year r)"
  proof
    assume low: "\<forall>r \<in> set records. record_State r = None \<and> record_District r = None \<and>
        record_Month r = None \<and> record_Year r = None"
    have a: "getPrediction (Some (map capitalised records)) state district month year random =
        getPrediction (Some records) state district month year random"
      using find_capitalised [OF low, of state district month year]
      by (simp add: getPrediction_def Let_def displayPrediction_capitalised split: option.splits)
    have b: "populateStateDistrictMap (Some (map capitalised records)) stateDistrictMap =
        populateStateDistrictMap (Some records) stateDistrictMap"
      using low by (simp add: populateStateDistrictMap_def fold_addRecord_capitalised)
    have c: "\<forall>r \<in> set records.
         matches state district month year (capitalised r) = matches state district month year r"
      using low by (simp add: matches_capitalised)
    from a b c show "getPrediction (Some (map capitalised records)) state district month year random =
        getPrediction (Some records) state district month year random \<and>
      populateStateDistrictMap (Some (map capitalised records)) stateDistrictMap =
        populateStateDistrictMap (Some records) stateDistrictMap \<and>
      (\<forall>r \<in> set records.
         matches state district month year (capitalised r) = matches state district month year r)"
      by blast
  qed
  have second: "record_state r = Some s \<and> s \<noteq> [] \<and> record_district r = Some d \<and> d \<noteq> [] \<longrightarrow>
      populateStateDistrictMap (Some [r]) Map.empty = [s \<mapsto> [d]]"
    by (auto simp: populateStateDistrictMap_def addRecord_cases js_or_def truthy_def)
  have third: "matches state district month year r \<longleftrightarrow>
      (record_state r = Some state \<or> record_State r = Some state) \<and>
      (record_district r = Some district \<or> record_District r = Some district) \<and>
      ((\<exists>n. record_month r = Some n \<and> js_Number month = Some n) \<or>
       (\<exists>n. record_Month r = Some n \<and> js_Number month = Some n)) \<and>
      ((\<exists>n. record_year r = Some n \<and> js_Number year = Some n) \<or>
       (\<exists>n. record_Year r = Some n \<and> js_Number year = Some n))"
    unfolding matches_def loose_eq_iff ..
  have fourth: "state \<noteq> [] \<and> district \<noteq> [] \<and> month \<noteq> [] \<and> year \<noteq> [] \<and>
    matches state district month year r \<longrightarrow>
      getPrediction (Some (r # rest)) state district month year random =
        Panel (displayPrediction r state district month year)"
    by (simp add: getPrediction_def Let_def)
  from first second third fourth show ?thesis by blast
qed

theorem spelling_fallback_witness:
  "getPrediction
     (Some [capitalised (empty_record\<lparr>record_state := Some ''Bihar'', record_district := Some ''Patna'',
                                      record_month := Some 3, record_year := Some 2025,
                                      drought_category := Some ''Severe Drought'',
                                      drought_severity := Some 3\<rparr>)])
     ''Bihar'' ''Patna'' ''3'' ''2025'' (\<lambda>i. 0) =
   getPrediction
     (Some [empty_record\<lparr>record_state := Some ''Bihar'', record_district := Some ''Patna'',
                         record_month := Some 3, record_year := Some 2025,
                         drought_category := Some ''Severe Drought'',
                         drought_severity := Some 3\<rparr>])
     ''Bihar'' ''Patna'' ''3'' ''2025'' (\<lambda>i. 0) \<and>
   populateStateDistrictMap
     (Some [empty_record\<lparr>record_state := Some ''Bihar'', record_State := Some ''Kerala'',
                         record_district := Some ''Patna'', record_District := Some ''Kochi''\<rparr>])
     Map.empty = [''Bihar'' \<mapsto> [''Patna'']] \<and>
   matches ''Kerala'' ''Patna'' ''3'' ''2025''
     (empty_record\<lparr>record_state := Some ''Bihar'', record_State := Some ''Kerala'',
                   record_district := Some ''Patna'', record_month := Some 3,
                   record_Year := Some 2025\<rparr>) \<and>
   getPrediction
     (Some [empty_record\<lparr>record_state := Some ''Bihar'', record_State := Some ''Kerala'',
                         record_district := Some ''Patna'', record_month := Some 3,
                         record_Year := Some 2025\<rparr>])
     ''Kerala'' ''Patna'' ''3'' ''2025'' (\<lambda>i. 0) =
   Panel (displayPrediction
     (empty_record\<lparr>record_state := Some ''Bihar'', record_State := Some ''Kerala'',
                   record_district := Some ''Patna'', record_month := Some 3,
                   record_Year := Some 2025\<rparr>)
     ''Kerala'' ''Patna'' ''3'' ''2025'')"
proof -
  let ?r = "empty_record\<lparr>record_state := Some ''Bihar'', record_district := Some ''Patna'',
                         record_month := Some 3, record_year := Some 2025,
                         drought_category := Some ''Severe Drought'',
                         drought_severity := Some 3\<rparr>"
  let ?b = "empty_record\<lparr>record_state := Some ''Bihar'', record_State := Some ''Kerala'',
                         record_district := Some ''Patna'', record_District := Some ''Kochi''\<rparr>"
  let ?c = "empty_record\<lparr>record_state := Some ''Bihar'', record_State := Some ''Kerala'',
                   record_district := Some ''Patna'', record_month := Some 3,
                   record_Year := Some 2025\<rparr>"
  have low: "\<forall>r \<in> set [?r]. record_State r = None \<and> record_District r = None \<and>
        record_Month r = None \<and> record_Year r = None"
    by (simp add: empty_record_def)
  have a: "getPrediction (Some [capitalised ?r]) ''Bihar'' ''Patna'' ''3'' ''2025'' (\<lambda>i. 0) =
      getPrediction (Some [?r]) ''Bihar'' ''Patna'' ''3'' ''2025'' (\<lambda>i. 0)"
    using spelling_fallback [of "[?r]" "''Bihar''" "''Patna''" "''3''" "''2025''" "\<lambda>i. 0"] low
    by simp
  have both: "record_state ?b = Some ''Bihar'' \<and> ''Bihar'' \<noteq> [] \<and>
      record_district ?b = Some ''Patna'' \<and> ''Patna'' \<noteq> []"
    by (simp add: empty_record_def)
  have b: "populateStateDistrictMap (Some [?b]) Map.empty = [''Bihar'' \<mapsto> [''Patna'']]"
    using spelling_fallback [of "[]" "''Bihar''" "''Patna''" "''3''" "''2025''" "\<lambda>i. 0" Map.empty
        ?b "''Bihar''" "''Patna''"] both
    by blast
  have mixed: "(record_state ?c = Some ''Kerala'' \<or> record_State ?c = Some ''Kerala'') \<and>
      (record_district ?c = Some ''Patna'' \<or> record_District ?c = Some ''Patna'') \<and>
      ((\<exists>n. record_month ?c = Some n \<and> js_Number ''3'' = Some n) \<or>
       (\<exists>n. record_Month ?c = Some n \<and> js_Number ''3'' = Some n)) \<and>
      ((\<exists>n. record_year ?c = Some n \<and> js_Number ''2025'' = Some n) \<or>
       (\<exists>n. record_Year ?c = Some n \<and> js_Number ''2025'' = Some n))"
    by (simp add: empty_record_def js_Number_3 js_Number_2025)
  have c: "matches ''Kerala'' ''Patna'' ''3'' ''2025'' ?c"
    using spelling_fallback [of "[]" "''Kerala''" "''Patna''" "''3''" "''2025''" "\<lambda>i. 0" Map.empty
        ?c "''Bihar''" "''Patna''" "[]"] mixed
    by blast
  have sel: "''Kerala'' \<noteq> [] \<and> ''Patna'' \<noteq> [] \<and> ''3'' \<noteq> [] \<and> ''2025'' \<noteq> []"
    by simp
  have d: "getPrediction (Some [?c]) ''Kerala'' ''Patna'' ''3'' ''2025'' (\<lambda>i. 0) =
      Panel (displayPrediction ?c ''Kerala'' ''Patna'' ''3'' ''2025'')"
    using spelling_fallback [of "[]" "''Kerala''" "''Patna''" "''3''" "''2025''" "\<lambda>i. 0" Map.empty
        ?c "''Bihar''" "''Patna''" "[]"] sel c
    by blast
  from a b c d show ?thesis by blast
qed

section \<open>The generated placeholder\<close>

lemma generated_fields:
  "generateSamplePrediction random =
     empty_record\<lparr>drought_category := drought_category (generateSamplePrediction random),
                   drought_severity := Some (random 1 * 5),
                   rainfall_prediction := Some (random 2 * 200),
                   temperature_avg := Some (20 + random 3 * 15),
                   confidence := Some (0.7 + random 4 * 0.25)\<rparr>"
  by (simp add: generateSamplePrediction_def empty_record_def Let_def)

lemma displayPrediction_with_query_fields:
  "displayPrediction
     (r\<lparr>record_state := a, record_district := b, record_month := c, record_year := d\<rparr>)
     state district month year =
   displayPrediction r state district month year"
  by (simp add: displayPrediction_def)

text \<open>
  C6, as stated: a generated placeholder carries a marker that tells it from a genuine
  record. It does not: with no data, the panel shown for the query below is the very
  panel shown when the data holds a genuine record with the same five values.
\<close>

theorem placeholder_shown_like_record:
  "find (matches ''Bihar'' ''Patna'' ''3'' ''2025'') [] = None \<and>
   find (matches ''Bihar'' ''Patna'' ''3'' ''2025'')
     [empty_record\<lparr>record_state := Some ''Bihar'', record_district := Some ''Patna'',
                   record_month := Some 3, record_year := Some 2025,
                   drought_category := Some ''Moderate Drought'', drought_severity := Some 2.5,
                   rainfall_prediction := Some 100, temperature_avg := Some 27.5,
                   confidence := Some 0.825\<rparr>] =
     Some (empty_record\<lparr>record_state := Some ''Bihar'', record_district := Some ''Patna'',
                   record_month := Some 3, record_year := Some 2025,
                   drought_category := Some ''Moderate Drought'', drought_severity := Some 2.5,
                   rainfall_prediction := Some 100, temperature_avg := Some 27.5,
                   confidence := Some 0.825\<rparr>) \<and>
   getPrediction (Some []) ''Bihar'' ''Patna'' ''3'' ''2025'' (\<lambda>i. 1 / 2) =
   getPrediction
     (Some [empty_record\<lparr>record_state := Some ''Bihar'', record_district := Some ''Patna'',
                   record_month := Some 3, record_year := Some 2025,
                   drought_category := Some ''Moderate Drought'', drought_severity := Some 2.5,
                   rainfall_prediction := Some 100, temperature_avg := Some 27.5,
                   confidence := Some 0.825\<rparr>])
     ''Bihar'' ''Patna'' ''3'' ''2025'' (\<lambda>i. 1 / 2)"
  by (simp add: getPrediction_def matches_def empty_record_def loose_eq_def js_Number_3
      js_Number_2025 generateSamplePrediction_def droughtCategories_def displayPrediction_def
      js_or_def truthy_def num_or_def Let_def)

text \<open>
  C6, amended. When all four values are selected and the lookup finds no record, the
  panel shows a generated record that carries no marker: it holds the five generated
  fields (category, severity, rainfall, temperature, confidence) and no other, it is
  shown by the same routine as a record that was found, and a genuine record with the
  same five values gives the same panel.
\<close>

theorem placeholder_unmarked:
  "(state \<noteq> [] \<and> district \<noteq> [] \<and> month \<noteq> [] \<and> year \<noteq> [] \<and>
    (\<forall>records. predictionData = Some records \<longrightarrow>
       find (matches state district month year) records = None) \<longrightarrow>
      getPrediction predictionData state district month year random =
        Panel (displayPrediction (generateSamplePrediction random) state district month year) \<and>
      (\<forall>m y anyRandom. js_Number month = Some m \<and> js_Number year = Some y \<longrightarrow>
         getPrediction
           (Some [(generateSamplePrediction random)
                    \<lparr>record_state := Some state, record_district := Some district,
                      record_month := Some m, record_year := Some y\<rparr>])
           state district month year anyRandom =
         getPrediction predictionData state district month year random)) \<and>
   (\<exists>cat sev rain temp conf.
      generateSamplePrediction random =
        empty_record\<lparr>drought_category := cat, drought_severity := Some sev,
                      rainfall_prediction := Some rain, temperature_avg := Some temp,
                      confidence := Some conf\<rparr>)"
proof -
  have fields: "\<exists>cat sev rain temp conf.
      generateSamplePrediction random =
        empty_record\<lparr>drought_category := cat, drought_severity := Some sev,
                      rainfall_prediction := Some rain, temperature_avg := Some temp,
                      confidence := Some conf\<rparr>"
    using generated_fields [of random] by blast
  have shown_same: "getPrediction predictionData state district month year random =
        Panel (displayPrediction (generateSamplePrediction random) state district month year) \<and>
      (\<forall>m y anyRandom. js_Number month = Some m \<and> js_Number year = Some y \<longrightarrow>
         getPrediction
           (Some [(generateSamplePrediction random)
                    \<lparr>record_state := Some state, record_district := Some district,
                      record_month := Some m, record_year := Some y\<rparr>])
           state district month year anyRandom =
         getPrediction predictionData state district month year random)"
    if sel: "state \<noteq> []" "district \<noteq> []" "month \<noteq> []" "year \<noteq> []"
      and nf: "\<forall>records. predictionData = Some records \<longrightarrow>
         find (matches state district month year) records = None"
  proof -
    have shown: "getPrediction predictionData state district month year random =
        Panel (displayPrediction (generateSamplePrediction random) state district month year)"
      using sel nf by (simp add: getPrediction_def Let_def split: option.splits)
    have left: "getPrediction
           (Some [(generateSamplePrediction random)
                    \<lparr>record_state := Some state, record_district := Some district,
                      record_month := Some m, record_year := Some y\<rparr>])
           state district month year anyRandom =
         Panel (displayPrediction (generateSamplePrediction random) state district month year)"
      if "js_Number month = Some m" "js_Number year = Some y" for m y anyRandom
      using sel that
      by (simp add: getPrediction_def Let_def matches_def loose_eq_def
          displayPrediction_with_query_fields)
    have "\<forall>m y anyRandom. js_Number month = Some m \<and> js_Number year = Some y \<longrightarrow>
         getPrediction
           (Some [(generateSamplePrediction random)
                    \<lparr>record_state := Some state, record_district := Some district,
                      record_month := Some m, record_year := Some y\<rparr>])
           state district month year anyRandom =
         getPrediction predictionData state district month year random"
      unfolding shown using left by blast
    with shown show ?thesis by blast
  qed
  from fields shown_same show ?thesis by blast
qed

theorem placeholder_unmarked_witness:
  "getPrediction (Some []) ''Bihar'' ''Patna'' ''3'' ''2025'' (\<lambda>i. 1 / 2) =
     Panel (displayPrediction (generateSamplePrediction (\<lambda>i. 1 / 2)) ''Bihar'' ''Patna'' ''3'' ''2025'') \<and>
   getPrediction
     (Some [(generateSamplePrediction (\<lambda>i. 1 / 2))
              \<lparr>record_state := Some ''Bihar'', record_district := Some ''Patna'',
                record_month := Some 3, record_year := Some 2025\<rparr>])
     ''Bihar'' ''Patna'' ''3'' ''2025'' (\<lambda>i. 0) =
   getPrediction (Some []) ''Bihar'' ''Patna'' ''3'' ''2025'' (\<lambda>i. 1 / 2)"
proof -
  have hyp: "''Bihar'' \<noteq> [] \<and> ''Patna'' \<noteq> [] \<and> ''3'' \<noteq> [] \<and> ''2025'' \<noteq> [] \<and>
    (\<forall>records. Some [] = Some records \<longrightarrow>
       find (matches ''Bihar'' ''Patna'' ''3'' ''2025'') records = None)"
    by simp
  have nums: "js_Number ''3'' = Some 3 \<and> js_Number ''2025'' = Some 2025"
    by (simp add: js_Number_3 js_Number_2025)
  from placeholder_unmarked [of "''Bihar''" "''Patna''" "''3''" "''2025''" "Some []" "\<lambda>i. 1 / 2"] hyp nums
  show ?thesis by blast
qed

end
